theory Spec2Isabelle
  imports Complex_Main
begin

section \<open>Data model (src/types/tracking.ts)\<close>

text \<open>
  A finite double is the real number it denotes. Coordinates, timestamps and clock
  readings are finite doubles; the clock readings, and the start times made from them,
  are whole milliseconds, on which subtraction is exact. The distance is computed in
  double arithmetic, with its rounding, and can be NaN: its type is \<open>number\<close> below.
  An optional field \<open>f?: T\<close> is a \<open>T option\<close>, with \<open>None\<close> for \<open>undefined\<close>.
  The field \<open>id\<close> of a session is called \<open>session_id\<close>, since \<open>id\<close> is the identity
  function of HOL.

  \<open>number\<close> is what a property declared \<open>number\<close> holds at run time when it can
  fail to be finite: a finite double, NaN, or the \<open>null\<close> that \<open>JSON.stringify\<close> writes
  in the place of NaN and \<open>JSON.parse\<close> reads back.
\<close>

datatype number = Num real | NaN | Null

datatype Category = mixed | plastic | metal | glass | paper | other

record LocationPoint =
  latitude :: real
  longitude :: real
  timestamp :: real
  accuracy :: "real option"
  altitude :: "real option"
  speed :: "real option"

record TrackingSession =
  session_id :: string
  name :: "string option"
  startTime :: real
  endTime :: "real option"
  locations :: "LocationPoint list"
  distance :: "number option"
  duration :: "real option"
  totalWeightG :: "real option"
  foundCategories :: "Category list option"

text \<open>
  The reading delivered by expo-location (\<open>Location.LocationObject\<close>): the fields of
  \<open>location.coords\<close> that the program reads, and \<open>location.timestamp\<close>. In that
  library \<open>accuracy\<close>, \<open>altitude\<close> and \<open>speed\<close> are \<open>number | null\<close>;
  \<open>None\<close> is \<open>null\<close>.
\<close>

record LocationObject =
  coords_latitude :: real
  coords_longitude :: real
  coords_accuracy :: "real option"
  coords_altitude :: "real option"
  coords_speed :: "real option"
  location_timestamp :: real

section \<open>Double arithmetic\<close>

text \<open>
  The four operations of the language on numbers are those of IEEE 754 binary64: the exact
  result rounded to the nearest double, a tie to the one with the even significand.
  \<open>fl\<close> is this rounding. The doubles of magnitude in \<open>[2^k, 2^(k+1))\<close> are
  the multiples of \<open>2^(k-52)\<close>, and below \<open>2^(-1022)\<close> the multiples of \<open>2^(-1074)\<close>.
  Results beyond the largest double, which no position on the globe leads to, are not
  modelled: there are no infinities here. For the same reason a division by zero, which
  the program never makes (it divides by 180 and by 2), is given NaN, its value for 0 / 0.
\<close>

definition pow2 :: "int \<Rightarrow> real" where
  "pow2 e = (if 0 \<le> e then 2 ^ nat e else 1 / 2 ^ nat (- e))"

definition roundEven :: "real \<Rightarrow> int" where
  "roundEven y =
     (let f = \<lfloor>y\<rfloor>; r = y - of_int f
      in if r < 1 / 2 then f
         else if 1 / 2 < r then f + 1
         else if even f then f else f + 1)"

definition ulpExponent :: "real \<Rightarrow> int" where
  "ulpExponent x = max \<lfloor>log 2 \<bar>x\<bar>\<rfloor> (- 1022) - 52"

definition fl :: "real \<Rightarrow> real" where
  "fl x = (if x = 0 then 0
           else of_int (roundEven (x / pow2 (ulpExponent x))) * pow2 (ulpExponent x))"

text \<open>
  An operand is converted as the language does (\<open>ToNumber\<close>): \<open>null\<close> counts as 0,
  and NaN makes every result NaN.
\<close>

definition toNumber :: "number \<Rightarrow> real option" where
  "toNumber v = (case v of Num x \<Rightarrow> Some x | NaN \<Rightarrow> None | Null \<Rightarrow> Some 0)"

definition arith1 :: "(real \<Rightarrow> real) \<Rightarrow> number \<Rightarrow> number" where
  "arith1 f v = (case toNumber v of None \<Rightarrow> NaN | Some x \<Rightarrow> Num (f x))"

definition arith2 :: "(real \<Rightarrow> real \<Rightarrow> real) \<Rightarrow> number \<Rightarrow> number \<Rightarrow> number" where
  "arith2 f v w =
     (case toNumber v of
        None \<Rightarrow> NaN
      | Some x \<Rightarrow> (case toNumber w of None \<Rightarrow> NaN | Some y \<Rightarrow> Num (f x y)))"

definition fadd :: "number \<Rightarrow> number \<Rightarrow> number" where
  "fadd = arith2 (\<lambda>x y. fl (x + y))"

definition fsub :: "number \<Rightarrow> number \<Rightarrow> number" where
  "fsub = arith2 (\<lambda>x y. fl (x - y))"

definition fmul :: "number \<Rightarrow> number \<Rightarrow> number" where
  "fmul = arith2 (\<lambda>x y. fl (x * y))"

definition fdiv :: "number \<Rightarrow> number \<Rightarrow> number" where
  "fdiv v w =
     (case toNumber v of
        None \<Rightarrow> NaN
      | Some x \<Rightarrow>
          (case toNumber w of
             None \<Rightarrow> NaN
           | Some y \<Rightarrow> if y = 0 then NaN else Num (fl (x / y))))"

section \<open>The Math library\<close>

text \<open>
  The language leaves the values of \<open>Math.sin\<close>, \<open>Math.cos\<close>, \<open>Math.sqrt\<close> and
  \<open>Math.atan2\<close> on finite arguments to the engine (they are approximations of the real
  functions), so the engine's library is a parameter \<open>M\<close> of everything that computes a
  distance: the double each function returns on finite doubles. What the language fixes is
  modelled: NaN in gives NaN out, the square root of a negative number is NaN, and
  \<open>Math.PI\<close> is the double nearest to \<open>\<pi>\<close>, 3.141592653589793.
\<close>

text \<open>
  The real function that \<open>Math.atan2(y, x)\<close> approximates: the angle of the point
  \<open>(x, y)\<close>, in \<open>(-\<pi>, \<pi>]\<close>.
\<close>

definition atan2 :: "real \<Rightarrow> real \<Rightarrow> real" where
  "atan2 y x =
     (if 0 < x then arctan (y / x)
      else if x < 0 then (if 0 \<le> y then arctan (y / x) + pi else arctan (y / x) - pi)
      else if 0 < y then pi / 2
      else if y < 0 then - (pi / 2)
      else 0)"

record math =
  sin_double :: "real \<Rightarrow> real"
  cos_double :: "real \<Rightarrow> real"
  sqrt_double :: "real \<Rightarrow> real"
  atan2_double :: "real \<Rightarrow> real \<Rightarrow> real"

definition Math_PI :: number where
  "Math_PI = Num (884279719003555 / 281474976710656)"

definition Math_sin :: "math \<Rightarrow> number \<Rightarrow> number" where
  "Math_sin M = arith1 (sin_double M)"

definition Math_cos :: "math \<Rightarrow> number \<Rightarrow> number" where
  "Math_cos M = arith1 (cos_double M)"

definition Math_sqrt :: "math \<Rightarrow> number \<Rightarrow> number" where
  "Math_sqrt M v =
     (case toNumber v of
        None \<Rightarrow> NaN
      | Some x \<Rightarrow> if x < 0 then NaN else Num (sqrt_double M x))"

definition Math_atan2 :: "math \<Rightarrow> number \<Rightarrow> number \<Rightarrow> number" where
  "Math_atan2 M = arith2 (atan2_double M)"

section \<open>Great-circle distance (calculateDistance)\<close>

text \<open>
  The haversine formula, as both copies of \<open>calculateDistance\<close> write it
  (the hook and the background task hold the same text), operation by operation; the
  products associate to the left, as in the language. Nothing keeps \<open>a\<close> below 1.
\<close>

definition calculateDistance :: "math \<Rightarrow> LocationPoint \<Rightarrow> LocationPoint \<Rightarrow> number" where
  "calculateDistance M point1 point2 =
     (let R = Num 6371000;
          lat1Rad = fdiv (fmul (Num (latitude point1)) Math_PI) (Num 180);
          lat2Rad = fdiv (fmul (Num (latitude point2)) Math_PI) (Num 180);
          deltaLatRad =
            fdiv (fmul (fsub (Num (latitude point2)) (Num (latitude point1))) Math_PI) (Num 180);
          deltaLonRad =
            fdiv (fmul (fsub (Num (longitude point2)) (Num (longitude point1))) Math_PI) (Num 180);
          a = fadd
                (fmul (Math_sin M (fdiv deltaLatRad (Num 2)))
                      (Math_sin M (fdiv deltaLatRad (Num 2))))
                (fmul (fmul (fmul (Math_cos M lat1Rad) (Math_cos M lat2Rad))
                            (Math_sin M (fdiv deltaLonRad (Num 2))))
                      (Math_sin M (fdiv deltaLonRad (Num 2))));
          c = fmul (Num 2) (Math_atan2 M (Math_sqrt M a) (Math_sqrt M (fsub (Num 1) a)))
      in fmul R c)"

section \<open>The storage service (storageService over AsyncStorage)\<close>

text \<open>
  The service of src/unnamed/part_004.
  AsyncStorage is a key-value store of strings; the service keeps two keys in it. A stored
  string is represented by the value \<open>JSON.parse\<close> reads back from it, \<open>None\<close> when
  the key is absent. The field \<open>written\<close> is a journal of the acknowledged writes,
  oldest first, so that the order of two writes to different keys can be stated.

  \<open>toJSON\<close> is a session as \<open>JSON.stringify\<close> writes it and \<open>JSON.parse\<close> reads it
  back: a NaN distance becomes \<open>null\<close>; the other fields are finite or absent and stay
  as they are. A session written from memory is stored in this form. The sessions that
  \<open>getSessions\<close> has read are in this form already, and writing them again changes
  nothing in them.
\<close>

definition toJSON :: "TrackingSession \<Rightarrow> TrackingSession" where
  "toJSON session =
     session\<lparr>distance := (case distance session of
                              Some NaN \<Rightarrow> Some Null
                            | d \<Rightarrow> d)\<rparr>"

datatype key = SESSIONS_KEY | CURRENT_SESSION_KEY

datatype mutation = SetItem key | RemoveItem key

record AsyncStorage =
  tracking_sessions :: "TrackingSession list option"
  current_tracking_session :: "TrackingSession option"
  written :: "mutation list"

text \<open>
  A value thrown by a rejected promise: an \<open>Error\<close> with its message, or something
  else. The outcome of every asynchronous platform call is a parameter of the function
  making it: \<open>None\<close> when the call resolves, \<open>Some e\<close> when it rejects with \<open>e\<close>.
\<close>

datatype thrown = Error string | NotAnError

definition getSessions :: "thrown option \<Rightarrow> AsyncStorage \<Rightarrow> TrackingSession list" where
  "getSessions rd st =
     (case rd of
        Some e \<Rightarrow> []
      | None \<Rightarrow> (case tracking_sessions st of Some data \<Rightarrow> data | None \<Rightarrow> []))"

definition saveSession ::
  "thrown option \<Rightarrow> thrown option \<Rightarrow> TrackingSession \<Rightarrow> AsyncStorage \<Rightarrow> thrown + AsyncStorage" where
  "saveSession rd wr session st =
     (let sessions = getSessions rd st;
          updatedSessions = sessions @ [toJSON session]
      in case wr of
           Some e \<Rightarrow> Inl e
         | None \<Rightarrow> Inr (st\<lparr>tracking_sessions := Some updatedSessions,
                            written := written st @ [SetItem SESSIONS_KEY]\<rparr>))"

definition getSession :: "thrown option \<Rightarrow> string \<Rightarrow> AsyncStorage \<Rightarrow> TrackingSession option" where
  "getSession rd i st = find (\<lambda>s. session_id s = i) (getSessions rd st)"

definition deleteSession ::
  "thrown option \<Rightarrow> thrown option \<Rightarrow> string \<Rightarrow> AsyncStorage \<Rightarrow> thrown + AsyncStorage" where
  "deleteSession rd wr i st =
     (let sessions = getSessions rd st;
          updatedSessions = filter (\<lambda>s. session_id s \<noteq> i) sessions
      in case wr of
           Some e \<Rightarrow> Inl e
         | None \<Rightarrow> Inr (st\<lparr>tracking_sessions := Some updatedSessions,
                            written := written st @ [SetItem SESSIONS_KEY]\<rparr>))"

text \<open>\<open>saveCurrentSession\<close> logs a rejected write and does not rethrow it.\<close>

definition saveCurrentSession ::
  "thrown option \<Rightarrow> TrackingSession option \<Rightarrow> AsyncStorage \<Rightarrow> AsyncStorage" where
  "saveCurrentSession wr session st =
     (case wr of
        Some e \<Rightarrow> st
      | None \<Rightarrow>
          (case session of
             Some s \<Rightarrow> st\<lparr>current_tracking_session := Some (toJSON s),
                           written := written st @ [SetItem CURRENT_SESSION_KEY]\<rparr>
           | None \<Rightarrow> st\<lparr>current_tracking_session := None,
                         written := written st @ [RemoveItem CURRENT_SESSION_KEY]\<rparr>))"

definition getCurrentSession :: "thrown option \<Rightarrow> AsyncStorage \<Rightarrow> TrackingSession option" where
  "getCurrentSession rd st =
     (case rd of Some e \<Rightarrow> None | None \<Rightarrow> current_tracking_session st)"

section \<open>Building a location point and the running distance\<close>

text \<open>\<open>v || undefined\<close> on a \<open>number | null\<close>: null and 0 are falsy.\<close>

definition orUndefined :: "real option \<Rightarrow> real option" where
  "orUndefined v = (case v of None \<Rightarrow> None | Some x \<Rightarrow> if x = 0 then None else Some x)"

definition locationPoint :: "LocationObject \<Rightarrow> LocationPoint" where
  "locationPoint location =
     \<lparr>latitude = coords_latitude location,
      longitude = coords_longitude location,
      timestamp = location_timestamp location,
      accuracy = orUndefined (coords_accuracy location),
      altitude = orUndefined (coords_altitude location),
      speed = orUndefined (coords_speed location)\<rparr>"

text \<open>
  The loop \<open>for (let i = 1; i < updatedLocations.length; i++) totalDistance += ...\<close>,
  with the loop variable and the accumulator as arguments.
\<close>

function distanceLoop :: "math \<Rightarrow> LocationPoint list \<Rightarrow> nat \<Rightarrow> number \<Rightarrow> number" where
  "distanceLoop M updatedLocations i totalDistance =
     (if i < length updatedLocations
      then distanceLoop M updatedLocations (Suc i)
             (fadd totalDistance
                (calculateDistance M (updatedLocations ! (i - 1)) (updatedLocations ! i)))
      else totalDistance)"
  by pat_completeness auto
termination
  by (relation "measure (\<lambda>(M, ls, i, t). length ls - i)") auto

declare distanceLoop.simps [simp del]

definition totalDistance :: "math \<Rightarrow> LocationPoint list \<Rightarrow> number" where
  "totalDistance M updatedLocations =
     (if length updatedLocations > 1 then distanceLoop M updatedLocations 1 (Num 0) else Num 0)"

section \<open>Session identifiers\<close>

text \<open>The decimal text of \<open>Date.now()\<close> in the template \<open>session_${Date.now()}\<close>.\<close>

fun digits :: "nat \<Rightarrow> string" where
  "digits n =
     (if n < 10 then [''0123456789'' ! n]
      else digits (n div 10) @ [''0123456789'' ! (n mod 10)])"

declare digits.simps [simp del]

definition toString :: "int \<Rightarrow> string" where
  "toString n = (if n < 0 then CHR ''-'' # digits (nat (- n)) else digits (nat n))"

definition newSessionId :: "int \<Rightarrow> string" where
  "newSessionId now = ''session_'' @ toString now"

section \<open>The tracking hook (useLocationTracking)\<close>

text \<open>
  The hook of src/unnamed/part_000, which tracks in the foreground and in the background.
  src/hooks/useLocationTracking.ts holds the same hook without the background task: its
  \<open>startTracking\<close>, \<open>stopTracking\<close> and \<open>loadActiveSession\<close> change the state below
  in the same way, apart from a shorter permission request with other messages, and its
  location callback is \<open>watchPositionCallback\<close> below.

  The state of the hook: its three state variables and whether
  \<open>locationSubscriptionRef.current\<close> holds a subscription. The functions of the hook act
  on this state and on the storage together. Every \<open>Date.now()\<close> a function reads is a
  parameter of it, in reading order.
\<close>

record hook =
  isTracking :: bool
  currentSession :: "TrackingSession option"
  error :: "string option"
  locationSubscription :: bool

type_synonym world = "hook \<times> AsyncStorage"

datatype PermissionStatus = granted | denied | undetermined

definition errorMessage :: "thrown \<Rightarrow> string \<Rightarrow> string" where
  "errorMessage err fallback = (case err of Error message \<Rightarrow> message | NotAnError \<Rightarrow> fallback)"

text \<open>
  \<open>requestPermissions\<close>: \<open>current\<close> is the outcome of
  \<open>getForegroundPermissionsAsync\<close> and \<open>requested\<close> that of
  \<open>requestForegroundPermissionsAsync\<close>. The request for the background permission only
  logs, whatever its outcome is.
\<close>

definition requestPermissions ::
  "thrown + PermissionStatus \<Rightarrow> thrown + PermissionStatus \<Rightarrow> hook \<Rightarrow> bool \<times> hook" where
  "requestPermissions current requested h =
     (let failed = (\<lambda>err. (False, h\<lparr>error := Some (''Failed to request location permission: '' @
                                                      errorMessage err ''Unknown error'')\<rparr>));
          required = (False, h\<lparr>error := Some
            ''Location permission is required to track your workout. Please enable it in Settings.''\<rparr>)
      in case current of
           Inl err \<Rightarrow> failed err
         | Inr currentStatus \<Rightarrow>
             if currentStatus \<noteq> granted then
               (case requested of
                  Inl err \<Rightarrow> failed err
                | Inr foregroundStatus \<Rightarrow>
                    if foregroundStatus \<noteq> granted then required else (True, h))
             else (True, h))"

text \<open>
  \<open>handleLocationUpdate\<close>, the location handler of the hook with background tracking:
  without a session it creates one holding the reading.
\<close>

definition handleLocationUpdate ::
  "math \<Rightarrow> int \<Rightarrow> int \<Rightarrow> thrown option \<Rightarrow> LocationObject \<Rightarrow> world \<Rightarrow> world" where
  "handleLocationUpdate M now1 now2 wr location w =
     (case w of (h, st) \<Rightarrow>
        (case currentSession h of
           None \<Rightarrow>
             (let newSession =
                    \<lparr>session_id = newSessionId now1, name = None, startTime = of_int now2,
                     endTime = None, locations = [locationPoint location],
                     distance = Some (Num 0), duration = Some 0,
                     totalWeightG = None, foundCategories = None\<rparr>
              in (h\<lparr>currentSession := Some newSession\<rparr>,
                  saveCurrentSession wr (Some newSession) st))
         | Some prev \<Rightarrow>
             (let updatedLocations = locations prev @ [locationPoint location];
                  updatedSession =
                    prev\<lparr>locations := updatedLocations,
                         distance := Some (totalDistance M updatedLocations),
                         duration := Some (of_int now1 - startTime prev)\<rparr>
              in (h\<lparr>currentSession := Some updatedSession\<rparr>,
                  saveCurrentSession wr (Some updatedSession) st))))"

text \<open>
  The callback given to \<open>watchPositionAsync\<close> in src/hooks/useLocationTracking.ts, the
  hook without background tracking: without a session it returns the state as it is.
\<close>

definition watchPositionCallback ::
  "math \<Rightarrow> int \<Rightarrow> thrown option \<Rightarrow> LocationObject \<Rightarrow> world \<Rightarrow> world" where
  "watchPositionCallback M now1 wr location w =
     (case w of (h, st) \<Rightarrow>
        (case currentSession h of
           None \<Rightarrow> (h, st)
         | Some prev \<Rightarrow>
             (let updatedLocations = locations prev @ [locationPoint location];
                  updatedSession =
                    prev\<lparr>locations := updatedLocations,
                         distance := Some (totalDistance M updatedLocations),
                         duration := Some (of_int now1 - startTime prev)\<rparr>
              in (h\<lparr>currentSession := Some updatedSession\<rparr>,
                  saveCurrentSession wr (Some updatedSession) st))))"

text \<open>
  \<open>startTracking\<close>. \<open>watch\<close> is the outcome of \<open>watchPositionAsync\<close>; starting the
  background updates only logs when it fails. The function reads and writes no storage.
\<close>

definition startTracking ::
  "thrown + PermissionStatus \<Rightarrow> thrown + PermissionStatus \<Rightarrow> int \<Rightarrow> int \<Rightarrow> thrown option \<Rightarrow>
   world \<Rightarrow> world" where
  "startTracking current requested now1 now2 watch w =
     (case w of (h, st) \<Rightarrow>
        (case requestPermissions current requested h of
           (False, h1) \<Rightarrow> (h1, st)
         | (True, h1) \<Rightarrow>
             (let newSession =
                    \<lparr>session_id = newSessionId now1, name = None, startTime = of_int now2,
                     endTime = None, locations = [],
                     distance = None, duration = None,
                     totalWeightG = None, foundCategories = None\<rparr>;
                  h2 = h1\<lparr>error := None, currentSession := Some newSession, isTracking := True\<rparr>
              in case watch of
                   None \<Rightarrow> (h2\<lparr>locationSubscription := True\<rparr>, st)
                 | Some err \<Rightarrow>
                     (h2\<lparr>error := Some (errorMessage err ''Failed to start tracking''),
                         isTracking := False\<rparr>, st))))"

text \<open>
  \<open>stopTracking\<close>. \<open>rd\<close> and \<open>wr\<close> are the outcomes of the read and the write inside
  \<open>saveSession\<close>, \<open>rm\<close> that of the removal inside \<open>saveCurrentSession(null)\<close>.
  Stopping the background updates only logs when it fails.
\<close>

definition stopTracking ::
  "int \<Rightarrow> int \<Rightarrow> thrown option \<Rightarrow> thrown option \<Rightarrow> thrown option \<Rightarrow> world \<Rightarrow> world" where
  "stopTracking now1 now2 rd wr rm w =
     (case w of (h, st) \<Rightarrow>
        (let h1 = h\<lparr>locationSubscription := False\<rparr>
         in case currentSession h of
              None \<Rightarrow> (h1\<lparr>isTracking := False\<rparr>, st)
            | Some cs \<Rightarrow>
                (let finalSession = cs\<lparr>endTime := Some (of_int now1),
                                       duration := Some (of_int now2 - startTime cs)\<rparr>
                 in case saveSession rd wr finalSession st of
                      Inl err \<Rightarrow> (h1\<lparr>error := Some (errorMessage err ''Failed to stop tracking'')\<rparr>, st)
                    | Inr st1 \<Rightarrow>
                        (h1\<lparr>currentSession := None, isTracking := False\<rparr>,
                         saveCurrentSession rm None st1))))"

text \<open>
  \<open>loadActiveSession\<close>, run when the hook mounts: it adopts the stored active session
  and subscribes to the location updates again.
\<close>

definition loadActiveSession ::
  "thrown option \<Rightarrow> thrown + PermissionStatus \<Rightarrow> thrown + PermissionStatus \<Rightarrow> thrown option \<Rightarrow>
   world \<Rightarrow> world" where
  "loadActiveSession rd current requested watch w =
     (case w of (h, st) \<Rightarrow>
        (case getCurrentSession rd st of
           None \<Rightarrow> (h, st)
         | Some activeSession \<Rightarrow>
             (let h1 = h\<lparr>currentSession := Some activeSession, isTracking := True\<rparr>
              in case requestPermissions current requested h1 of
                   (False, h2) \<Rightarrow> (h2, st)
                 | (True, h2) \<Rightarrow>
                     (case watch of
                        None \<Rightarrow> (h2\<lparr>locationSubscription := True\<rparr>, st)
                      | Some err \<Rightarrow> (h2\<lparr>error := Some ''Failed to resume tracking''\<rparr>, st)))))"

section \<open>The background location task\<close>

text \<open>
  The task of src/unnamed/part_001. It works on the storage alone. Each reading of a
  batch is handled with its own read of the active session, clock readings and write.
\<close>

record taskEnv =
  task_read :: "thrown option"
  task_now1 :: int
  task_now2 :: int
  task_write :: "thrown option"

definition taskStep :: "math \<Rightarrow> taskEnv \<Rightarrow> LocationObject \<Rightarrow> AsyncStorage \<Rightarrow> AsyncStorage" where
  "taskStep M env location st =
     (case getCurrentSession (task_read env) st of
        Some cs \<Rightarrow>
          (let updatedLocations = locations cs @ [locationPoint location];
               updatedSession =
                 cs\<lparr>locations := updatedLocations,
                    distance := Some (totalDistance M updatedLocations),
                    duration := Some (of_int (task_now1 env) - startTime cs)\<rparr>
           in saveCurrentSession (task_write env) (Some updatedSession) st)
      | None \<Rightarrow>
          (let newSession =
                 \<lparr>session_id = newSessionId (task_now1 env), name = None,
                  startTime = of_int (task_now2 env),
                  endTime = None, locations = [locationPoint location],
                  distance = Some (Num 0), duration = Some 0,
                  totalWeightG = None, foundCategories = None\<rparr>
           in saveCurrentSession (task_write env) (Some newSession) st))"

fun taskLoop ::
  "math \<Rightarrow> (nat \<Rightarrow> taskEnv) \<Rightarrow> nat \<Rightarrow> LocationObject list \<Rightarrow> AsyncStorage \<Rightarrow> AsyncStorage" where
  "taskLoop M env i [] st = st"
| "taskLoop M env i (location # rest) st =
     taskLoop M env (Suc i) rest (taskStep M (env i) location st)"

definition locationTask ::
  "math \<Rightarrow> (nat \<Rightarrow> taskEnv) \<Rightarrow> LocationObject list option \<Rightarrow> thrown option \<Rightarrow>
   AsyncStorage \<Rightarrow> AsyncStorage" where
  "locationTask M env data err st =
     (case err of
        Some e \<Rightarrow> st
      | None \<Rightarrow> (case data of None \<Rightarrow> st | Some locs \<Rightarrow> taskLoop M env 0 locs st))"

section \<open>The session summary screen\<close>

text \<open>The screen that src/types/tracking.ts holds after the types and the home screen.\<close>

record SessionSummaryFormData =
  form_totalWeightKg :: real
  form_foundCategories :: "Category list"

text \<open>
  \<open>Math.round\<close> rounds to the nearest integer, a half upwards. Its argument in
  \<open>onSubmit\<close> is the double product of the weight and 1000.
\<close>

definition mathRound :: "real \<Rightarrow> int" where
  "mathRound x = \<lfloor>x + 1 / 2\<rfloor>"

text \<open>
  \<open>loadSession\<close> of the screen: the session with the given id among the saved ones,
  else the active session when it has that id. An empty id loads nothing.
\<close>

definition loadSession ::
  "thrown option \<Rightarrow> thrown option \<Rightarrow> string \<Rightarrow> AsyncStorage \<Rightarrow> TrackingSession option" where
  "loadSession rd1 rd2 sessionId st =
     (if sessionId = [] then None
      else case getSession rd1 sessionId st of
             Some loadedSession \<Rightarrow> Some loadedSession
           | None \<Rightarrow>
               (case getCurrentSession rd2 st of
                  Some cs \<Rightarrow> if session_id cs = sessionId then Some cs else None
                | None \<Rightarrow> None))"

text \<open>
  \<open>onSubmit\<close>: \<open>session\<close> is the state of the screen. \<open>rd\<close> and \<open>wr\<close> are the outcomes
  inside \<open>saveSession\<close>, \<open>rd2\<close> that of \<open>getCurrentSession\<close>, \<open>rm\<close> that of the
  removal. A rejected save shows an alert and changes nothing.
\<close>

definition onSubmit ::
  "int \<Rightarrow> thrown option \<Rightarrow> thrown option \<Rightarrow> thrown option \<Rightarrow> thrown option \<Rightarrow>
   SessionSummaryFormData \<Rightarrow> TrackingSession option \<Rightarrow> AsyncStorage \<Rightarrow> AsyncStorage" where
  "onSubmit now rd wr rd2 rm data session st =
     (case session of
        None \<Rightarrow> st
      | Some s \<Rightarrow>
          (let weightG = mathRound (fl (form_totalWeightKg data * 1000));
               updatedSession =
                 s\<lparr>endTime := Some (case endTime s of
                                       None \<Rightarrow> of_int now
                                     | Some e \<Rightarrow> if e = 0 then of_int now else e),
                   totalWeightG := Some (of_int weightG),
                   foundCategories := Some (form_foundCategories data)\<rparr>
           in case saveSession rd wr updatedSession st of
                Inl err \<Rightarrow> st
              | Inr st1 \<Rightarrow>
                  (case getCurrentSession rd2 st1 of
                     None \<Rightarrow> st1
                   | Some cs \<Rightarrow>
                       if session_id cs = session_id s then saveCurrentSession rm None st1
                       else st1)))"

text \<open>
  Attaching a summary to a session is opening the screen for its id and submitting the
  form: \<open>loadSession\<close>, then \<open>onSubmit\<close> on what it loaded.
\<close>

definition attachSummary ::
  "int \<Rightarrow> string \<Rightarrow> SessionSummaryFormData \<Rightarrow> AsyncStorage \<Rightarrow> AsyncStorage" where
  "attachSummary now sessionId data st =
     onSubmit now None None None None data (loadSession None None sessionId st) st"

section \<open>A concrete scenario\<close>

text \<open>
  Two readings on the equator, one thousandth of a degree apart, the session the first one
  opens at time 1000, the states around it, and a summary form.
\<close>

definition fixA :: LocationObject where
  "fixA = \<lparr>coords_latitude = 0, coords_longitude = 0, coords_accuracy = Some 5,
            coords_altitude = Some 0, coords_speed = Some 0, location_timestamp = 1000\<rparr>"

definition fixB :: LocationObject where
  "fixB = \<lparr>coords_latitude = 0, coords_longitude = 1 / 1000, coords_accuracy = Some 5,
            coords_altitude = None, coords_speed = Some 1, location_timestamp = 2000\<rparr>"

definition idleHook :: hook where
  "idleHook = \<lparr>isTracking = False, currentSession = None, error = None,
                locationSubscription = False\<rparr>"

definition emptyStorage :: AsyncStorage where
  "emptyStorage = \<lparr>tracking_sessions = None, current_tracking_session = None, written = []\<rparr>"

definition sessionA :: TrackingSession where
  "sessionA = \<lparr>session_id = ''session_1000'', name = None, startTime = 1000, endTime = None,
                locations = [locationPoint fixA], distance = Some (Num 0), duration = Some 0,
                totalWeightG = None, foundCategories = None\<rparr>"

definition activeHook :: hook where
  "activeHook = \<lparr>isTracking = True, currentSession = Some sessionA, error = None,
                  locationSubscription = True\<rparr>"

definition activeStorage :: AsyncStorage where
  "activeStorage = \<lparr>tracking_sessions = None, current_tracking_session = Some sessionA,
                     written = [SetItem CURRENT_SESSION_KEY]\<rparr>"

definition summarisedSession :: TrackingSession where
  "summarisedSession = sessionA\<lparr>endTime := Some 3000, duration := Some 2000,
                                 totalWeightG := Some 2500, foundCategories := Some [plastic, glass]\<rparr>"

definition historyStorage :: AsyncStorage where
  "historyStorage = \<lparr>tracking_sessions = Some [summarisedSession], current_tracking_session = None,
                      written = []\<rparr>"

definition taskEnvOk :: taskEnv where
  "taskEnvOk = \<lparr>task_read = None, task_now1 = 2000, task_now2 = 2000, task_write = None\<rparr>"

definition editedForm :: SessionSummaryFormData where
  "editedForm = \<lparr>form_totalWeightKg = 12 / 10, form_foundCategories = [metal]\<rparr>"

text \<open>
  Two readings that lie nearly opposite on the globe, at latitude -87.5, longitude -179.5
  and at latitude 87.5, longitude 0.5, and the session tracking from the first of them.
\<close>

definition fixSouth :: LocationObject where
  "fixSouth = \<lparr>coords_latitude = - (175 / 2), coords_longitude = - (359 / 2),
                coords_accuracy = Some 5, coords_altitude = None, coords_speed = None,
                location_timestamp = 1000\<rparr>"

definition fixNorth :: LocationObject where
  "fixNorth = \<lparr>coords_latitude = 175 / 2, coords_longitude = 1 / 2,
                coords_accuracy = Some 5, coords_altitude = None, coords_speed = None,
                location_timestamp = 2000\<rparr>"

definition southSession :: TrackingSession where
  "southSession = sessionA\<lparr>locations := [locationPoint fixSouth]\<rparr>"

definition southHook :: hook where
  "southHook = activeHook\<lparr>currentSession := Some southSession\<rparr>"

definition southStorage :: AsyncStorage where
  "southStorage = activeStorage\<lparr>current_tracking_session := Some southSession\<rparr>"

text \<open>
  A Math library that rounds the real functions to the nearest double. Its values at the
  arguments that the distance of the two readings above reaches are written out:
  the sine of 1.5271630954950381 is 0.9990482215818578, the sine of 1.5707963267948966
  is 1, and the cosine of 1.5271630954950381 and of its negative is 0.04361938736533623.
\<close>

definition exampleMath :: math where
  "exampleMath =
     \<lparr>sin_double = (\<lambda>x. if x = 6877731147805427 / 4503599627370496
                          then 8998626396882423 / 9007199254740992
                          else if x = 884279719003555 / 562949953421312 then 1
                          else fl (sin x)),
      cos_double = (\<lambda>x. if \<bar>x\<bar> = 6877731147805427 / 4503599627370496
                          then 3143108106954521 / 72057594037927936
                          else fl (cos x)),
      sqrt_double = (\<lambda>x. fl (sqrt x)),
      atan2_double = (\<lambda>y x. fl (atan2 y x))\<rparr>"

section \<open>Rounding a number of known magnitude\<close>

text \<open>
  For \<open>x\<close> of magnitude in \<open>[2^k, 2^(k+1))\<close> the rounding is that of
  \<open>x / 2^(k-52)\<close> to an integer: this is how the roundings below are computed.
\<close>

lemma pow2_powr: "pow2 e = 2 powr (of_int e)"
  by (simp add: pow2_def powr_int)

lemma pow2_pos: "0 < pow2 e"
  by (simp add: pow2_def)

lemma ulpExponent_at:
  assumes "pow2 k \<le> \<bar>x\<bar>" "\<bar>x\<bar> < pow2 (k + 1)" "- 1022 \<le> k"
  shows "ulpExponent x = k - 52"
proof -
  have "0 < \<bar>x\<bar>" using assms(1) pow2_pos[of k] by linarith
  then have "\<lfloor>log 2 \<bar>x\<bar>\<rfloor> = k"
    using assms(1,2) by (simp add: floor_log_eq_powr_iff pow2_powr)
  then show ?thesis using assms(3) by (simp add: ulpExponent_def)
qed

lemma fl_at:
  assumes "pow2 k \<le> \<bar>x\<bar>" "\<bar>x\<bar> < pow2 (k + 1)" "- 1022 \<le> k"
  shows "fl x = of_int (roundEven (x / pow2 (k - 52))) * pow2 (k - 52)"
proof -
  have "x \<noteq> 0" using assms(1) pow2_pos[of k] by auto
  then show ?thesis by (simp add: fl_def ulpExponent_at[OF assms])
qed

section \<open>The distance of two readings nearly opposite on the globe\<close>

text \<open>
  The operations that \<open>calculateDistance\<close> makes on the readings at latitude -87.5,
  longitude -179.5 and at latitude 87.5, longitude 0.5, each with its rounded result, in
  the order of the source: the four angles in radians, their halves, the two products
  and the sum \<open>a\<close>, which comes out as \<open>1 + 2^(-52)\<close>, and \<open>1 - a\<close>, which is negative.
\<close>

lemma rounded_1:
  "fmul (Num (- (175 / 2))) Math_PI =
     Num (- (4835904713300691 / 17592186044416))"
  by (simp add: fmul_def arith2_def toNumber_def Math_PI_def,
      subst fl_at[where k = 8], simp_all add: pow2_def roundEven_def)

lemma rounded_2:
  "fdiv (Num (- (4835904713300691 / 17592186044416))) (Num 180) =
     Num (- (6877731147805427 / 4503599627370496))"
  by (simp add: fdiv_def toNumber_def,
      subst fl_at[where k = 0], simp_all add: pow2_def roundEven_def)

lemma rounded_3:
  "fmul (Num (175 / 2)) Math_PI =
     Num (4835904713300691 / 17592186044416)"
  by (simp add: fmul_def arith2_def toNumber_def Math_PI_def,
      subst fl_at[where k = 8], simp_all add: pow2_def roundEven_def)

lemma rounded_4:
  "fdiv (Num (4835904713300691 / 17592186044416)) (Num 180) =
     Num (6877731147805427 / 4503599627370496)"
  by (simp add: fdiv_def toNumber_def,
      subst fl_at[where k = 0], simp_all add: pow2_def roundEven_def)

lemma rounded_5:
  "fsub (Num (175 / 2)) (Num (- (175 / 2))) =
     Num 175"
  by (simp add: fsub_def arith2_def toNumber_def Math_PI_def,
      subst fl_at[where k = 7], simp_all add: pow2_def roundEven_def)

lemma rounded_6:
  "fmul (Num 175) Math_PI =
     Num (4835904713300691 / 8796093022208)"
  by (simp add: fmul_def arith2_def toNumber_def Math_PI_def,
      subst fl_at[where k = 9], simp_all add: pow2_def roundEven_def)

lemma rounded_7:
  "fdiv (Num (4835904713300691 / 8796093022208)) (Num 180) =
     Num (6877731147805427 / 2251799813685248)"
  by (simp add: fdiv_def toNumber_def,
      subst fl_at[where k = 1], simp_all add: pow2_def roundEven_def)

lemma rounded_8:
  "fsub (Num (1 / 2)) (Num (- (359 / 2))) =
     Num 180"
  by (simp add: fsub_def arith2_def toNumber_def Math_PI_def,
      subst fl_at[where k = 7], simp_all add: pow2_def roundEven_def)

lemma rounded_9:
  "fmul (Num 180) Math_PI =
     Num (4974073419394997 / 8796093022208)"
  by (simp add: fmul_def arith2_def toNumber_def Math_PI_def,
      subst fl_at[where k = 9], simp_all add: pow2_def roundEven_def)

lemma rounded_10:
  "fdiv (Num (4974073419394997 / 8796093022208)) (Num 180) =
     Num (884279719003555 / 281474976710656)"
  by (simp add: fdiv_def toNumber_def,
      subst fl_at[where k = 1], simp_all add: pow2_def roundEven_def)

lemma rounded_11:
  "fdiv (Num (6877731147805427 / 2251799813685248)) (Num 2) =
     Num (6877731147805427 / 4503599627370496)"
  by (simp add: fdiv_def toNumber_def,
      subst fl_at[where k = 0], simp_all add: pow2_def roundEven_def)

lemma rounded_12:
  "fdiv (Num (884279719003555 / 281474976710656)) (Num 2) =
     Num (884279719003555 / 562949953421312)"
  by (simp add: fdiv_def toNumber_def,
      subst fl_at[where k = 0], simp_all add: pow2_def roundEven_def)

lemma rounded_13:
  "fmul (Num (8998626396882423 / 9007199254740992)) (Num (8998626396882423 / 9007199254740992)) =
     Num (4495030849242473 / 4503599627370496)"
  by (simp add: fmul_def arith2_def toNumber_def Math_PI_def,
      subst fl_at[where k = "- 1"], simp_all add: pow2_def roundEven_def)

lemma rounded_14:
  "fmul (Num (3143108106954521 / 72057594037927936)) (Num (3143108106954521 / 72057594037927936)) =
     Num (4387214401548093 / 2305843009213693952)"
  by (simp add: fmul_def arith2_def toNumber_def Math_PI_def,
      subst fl_at[where k = "- 10"], simp_all add: pow2_def roundEven_def)

lemma rounded_15:
  "fmul (Num (4387214401548093 / 2305843009213693952)) (Num 1) =
     Num (4387214401548093 / 2305843009213693952)"
  by (simp add: fmul_def arith2_def toNumber_def Math_PI_def,
      subst fl_at[where k = "- 10"], simp_all add: pow2_def roundEven_def)

lemma rounded_16:
  "fadd (Num (4495030849242473 / 4503599627370496)) (Num (4387214401548093 / 2305843009213693952)) =
     Num (4503599627370497 / 4503599627370496)"
  by (simp add: fadd_def arith2_def toNumber_def Math_PI_def,
      subst fl_at[where k = 0], simp_all add: pow2_def roundEven_def)

lemma rounded_17:
  "fsub (Num 1) (Num (4503599627370497 / 4503599627370496)) =
     Num (- (1 / 4503599627370496))"
  by (simp add: fsub_def arith2_def toNumber_def Math_PI_def,
      subst fl_at[where k = "- 52"], simp_all add: pow2_def roundEven_def)

lemma Math_sqrt_negative: "x < 0 \<Longrightarrow> Math_sqrt M (Num x) = NaN"
  by (simp add: Math_sqrt_def toNumber_def)

lemma Math_atan2_NaN: "Math_atan2 M v NaN = NaN"
  by (simp add: Math_atan2_def arith2_def toNumber_def split: option.splits)

lemma fmul_NaN: "fmul v NaN = NaN"
  by (simp add: fmul_def arith2_def toNumber_def split: option.splits)

lemma fadd_NaN: "fadd v NaN = NaN"
  by (simp add: fadd_def arith2_def toNumber_def split: option.splits)

lemma calculateDistance_south_north:
  assumes s1: "sin_double M (6877731147805427 / 4503599627370496) = 8998626396882423 / 9007199254740992"
      and s2: "sin_double M (884279719003555 / 562949953421312) = 1"
      and c1: "cos_double M (- (6877731147805427 / 4503599627370496)) = 3143108106954521 / 72057594037927936"
      and c2: "cos_double M (6877731147805427 / 4503599627370496) = 3143108106954521 / 72057594037927936"
  shows "calculateDistance M (locationPoint fixSouth) (locationPoint fixNorth) = NaN"
proof -
  have sinA: "Math_sin M (Num (6877731147805427 / 4503599627370496)) = Num (8998626396882423 / 9007199254740992)"
    by (simp add: Math_sin_def arith1_def toNumber_def s1)
  have sinB: "Math_sin M (Num (884279719003555 / 562949953421312)) = Num 1"
    by (simp add: Math_sin_def arith1_def toNumber_def s2)
  have cosA: "Math_cos M (Num (- (6877731147805427 / 4503599627370496))) = Num (3143108106954521 / 72057594037927936)"
    by (simp add: Math_cos_def arith1_def toNumber_def c1)
  have cosB: "Math_cos M (Num (6877731147805427 / 4503599627370496)) = Num (3143108106954521 / 72057594037927936)"
    by (simp add: Math_cos_def arith1_def toNumber_def c2)
  have neg: "Math_sqrt M (Num (- (1 / 4503599627370496))) = NaN"
    by (rule Math_sqrt_negative) simp
  show ?thesis
    unfolding calculateDistance_def Let_def locationPoint_def fixSouth_def fixNorth_def
    apply (simp only: LocationPoint.simps LocationObject.simps)
    apply (simp only: rounded_1 rounded_2 rounded_3 rounded_4 rounded_5 rounded_6 rounded_7 rounded_8 rounded_9 rounded_10 rounded_11 rounded_12 rounded_13 rounded_14 rounded_15 rounded_16 rounded_17 sinA sinB cosA cosB neg Math_atan2_NaN fmul_NaN)
    done
qed


text \<open>
  C8. The distance of a pair of fixes should be a non-negative number, the same in both
  directions. For the two readings above, with a Math library whose sine and cosine
  return the nearest doubles at the three arguments the formula reaches,
  \<open>calculateDistance\<close> returns NaN: \<open>a\<close> is rounded to 1.0000000000000002, so
  \<open>1 - a\<close> is negative and its square root is NaN. NaN is not a non-negative number
  and equals nothing in the language, itself included.
\<close>

theorem C8_near_antipodal_distance_is_NaN:
  "sin_double M (6877731147805427 / 4503599627370496) = 8998626396882423 / 9007199254740992 \<and>
   sin_double M (884279719003555 / 562949953421312) = 1 \<and>
   cos_double M (- (6877731147805427 / 4503599627370496)) = 3143108106954521 / 72057594037927936 \<and>
   cos_double M (6877731147805427 / 4503599627370496) = 3143108106954521 / 72057594037927936 \<longrightarrow>
   calculateDistance M (locationPoint fixSouth) (locationPoint fixNorth) = NaN"
  using calculateDistance_south_north[of M] by blast

theorem C8_witness:
  "sin_double exampleMath (6877731147805427 / 4503599627370496) = 8998626396882423 / 9007199254740992 \<and>
   sin_double exampleMath (884279719003555 / 562949953421312) = 1 \<and>
   cos_double exampleMath (- (6877731147805427 / 4503599627370496)) = 3143108106954521 / 72057594037927936 \<and>
   cos_double exampleMath (6877731147805427 / 4503599627370496) = 3143108106954521 / 72057594037927936 \<and>
   calculateDistance exampleMath (locationPoint fixSouth) (locationPoint fixNorth) = NaN"
  using C8_near_antipodal_distance_is_NaN[of exampleMath]
  by (simp add: exampleMath_def)

section \<open>The running distance\<close>

text \<open>
  A stored session differs from the session in memory only where the distance is NaN.
\<close>

lemma toJSON_number: "distance s \<noteq> Some NaN \<Longrightarrow> toJSON s = s"
  by (cases "distance s") (auto simp: toJSON_def split: number.splits)

text \<open>
  The loop adds the pair distances from left to right, starting from 0.
\<close>

lemma distanceLoop_foldl:
  "distanceLoop M ls i t =
     foldl fadd t (map (\<lambda>k. calculateDistance M (ls ! (k - 1)) (ls ! k)) [i..<length ls])"
proof (induction M ls i t rule: distanceLoop.induct)
  case (1 M ls i t)
  show ?case
  proof (cases "i < length ls")
    case True
    then show ?thesis
      using 1 by (subst distanceLoop.simps) (simp add: upt_conv_Cons)
  next
    case False
    then show ?thesis by (subst distanceLoop.simps) simp
  qed
qed

lemma totalDistance_two:
  "totalDistance M [p, q] = fadd (Num 0) (calculateDistance M p q)"
  by (simp add: totalDistance_def distanceLoop_foldl upt_conv_Cons)

text \<open>
  C1. After each ingest the distance of the session should equal the sum of the pair
  distances within the relative tolerance \<open>1e-6\<close>. When the session that tracks from the
  first of the two readings above ingests the second, with such a Math library, the
  distance of the current session is NaN, which is within no tolerance of any number,
  and the stored active record holds \<open>null\<close> in its place.
\<close>

theorem C1_distance_field_is_NaN:
  "sin_double M (6877731147805427 / 4503599627370496) = 8998626396882423 / 9007199254740992 \<and>
   sin_double M (884279719003555 / 562949953421312) = 1 \<and>
   cos_double M (- (6877731147805427 / 4503599627370496)) = 3143108106954521 / 72057594037927936 \<and>
   cos_double M (6877731147805427 / 4503599627370496) = 3143108106954521 / 72057594037927936 \<longrightarrow>
   (\<exists>s'. currentSession (fst (handleLocationUpdate M now1 now2 wr fixNorth (southHook, southStorage)))
           = Some s' \<and>
         locations s' = [locationPoint fixSouth, locationPoint fixNorth] \<and>
         distance s' = Some NaN) \<and>
   (\<exists>s'. current_tracking_session
           (snd (handleLocationUpdate M now1 now2 None fixNorth (southHook, southStorage))) = Some s' \<and>
         locations s' = [locationPoint fixSouth, locationPoint fixNorth] \<and>
         distance s' = Some Null)"
proof
  assume a: "sin_double M (6877731147805427 / 4503599627370496) = 8998626396882423 / 9007199254740992 \<and>
   sin_double M (884279719003555 / 562949953421312) = 1 \<and>
   cos_double M (- (6877731147805427 / 4503599627370496)) = 3143108106954521 / 72057594037927936 \<and>
   cos_double M (6877731147805427 / 4503599627370496) = 3143108106954521 / 72057594037927936"
  then have d: "calculateDistance M (locationPoint fixSouth) (locationPoint fixNorth) = NaN"
    using calculateDistance_south_north[of M] by blast
  have t: "totalDistance M [locationPoint fixSouth, locationPoint fixNorth] = NaN"
    by (simp add: totalDistance_two d fadd_NaN)
  have c: "currentSession southHook = Some southSession"
    by (simp add: southHook_def)
  have l: "locations southSession = [locationPoint fixSouth]"
    by (simp add: southSession_def)
  show "(\<exists>s'. currentSession (fst (handleLocationUpdate M now1 now2 wr fixNorth (southHook, southStorage)))
           = Some s' \<and>
         locations s' = [locationPoint fixSouth, locationPoint fixNorth] \<and>
         distance s' = Some NaN) \<and>
   (\<exists>s'. current_tracking_session
           (snd (handleLocationUpdate M now1 now2 None fixNorth (southHook, southStorage))) = Some s' \<and>
         locations s' = [locationPoint fixSouth, locationPoint fixNorth] \<and>
         distance s' = Some Null)"
    by (simp add: handleLocationUpdate_def Let_def c l t saveCurrentSession_def toJSON_def)
qed

theorem C1_witness:
  "sin_double exampleMath (6877731147805427 / 4503599627370496) = 8998626396882423 / 9007199254740992 \<and>
   sin_double exampleMath (884279719003555 / 562949953421312) = 1 \<and>
   cos_double exampleMath (- (6877731147805427 / 4503599627370496)) = 3143108106954521 / 72057594037927936 \<and>
   cos_double exampleMath (6877731147805427 / 4503599627370496) = 3143108106954521 / 72057594037927936 \<and>
   map_option distance
     (currentSession (fst (handleLocationUpdate exampleMath 2000 2000 None fixNorth (southHook, southStorage))))
     = Some (Some NaN) \<and>
   map_option distance
     (current_tracking_session
        (snd (handleLocationUpdate exampleMath 2000 2000 None fixNorth (southHook, southStorage))))
     = Some (Some Null)"
proof -
  have h: "sin_double exampleMath (6877731147805427 / 4503599627370496) = 8998626396882423 / 9007199254740992 \<and>
   sin_double exampleMath (884279719003555 / 562949953421312) = 1 \<and>
   cos_double exampleMath (- (6877731147805427 / 4503599627370496)) = 3143108106954521 / 72057594037927936 \<and>
   cos_double exampleMath (6877731147805427 / 4503599627370496) = 3143108106954521 / 72057594037927936"
    by (simp add: exampleMath_def)
  from C1_distance_field_is_NaN[of exampleMath 2000 2000 None] h
  obtain s1 s2 where
    "currentSession (fst (handleLocationUpdate exampleMath 2000 2000 None fixNorth (southHook, southStorage)))
       = Some s1" "distance s1 = Some NaN"
    "current_tracking_session
       (snd (handleLocationUpdate exampleMath 2000 2000 None fixNorth (southHook, southStorage))) = Some s2"
    "distance s2 = Some Null"
    by blast
  then show ?thesis using h by simp
qed

lemma newSessionId_1000: "newSessionId 1000 = ''session_1000''"
  by (simp add: newSessionId_def toString_def digits.simps)

lemma newSessionId_5000: "newSessionId 5000 = ''session_5000''"
  by (simp add: newSessionId_def toString_def digits.simps)

section \<open>A reading without a session\<close>

text \<open>
  C2, as amended. For every fix delivered while no current session exists,
  \<open>handleLocationUpdate\<close> and the background task do not ignore it: they create a new
  session holding exactly that fix (id \<open>session_\<close> and the clock, distance 0, duration 0),
  and write it to the active-session record, where an acknowledged write stores it (in
  the form JSON gives it). Only the watch callback of the hook without background
  tracking leaves state and storage as they are.
\<close>

theorem C2_no_session_creates_one:
  "(currentSession h = None \<longrightarrow>
      handleLocationUpdate M now1 now2 wr location (h, st) =
        (h\<lparr>currentSession := Some
             \<lparr>session_id = newSessionId now1, name = None, startTime = of_int now2,
              endTime = None, locations = [locationPoint location],
              distance = Some (Num 0), duration = Some 0,
              totalWeightG = None, foundCategories = None\<rparr>\<rparr>,
         saveCurrentSession wr (Some
             \<lparr>session_id = newSessionId now1, name = None, startTime = of_int now2,
              endTime = None, locations = [locationPoint location],
              distance = Some (Num 0), duration = Some 0,
              totalWeightG = None, foundCategories = None\<rparr>) st)) \<and>
   (getCurrentSession (task_read env) st = None \<longrightarrow>
      taskStep M env location st =
        saveCurrentSession (task_write env) (Some
             \<lparr>session_id = newSessionId (task_now1 env), name = None,
              startTime = of_int (task_now2 env),
              endTime = None, locations = [locationPoint location],
              distance = Some (Num 0), duration = Some 0,
              totalWeightG = None, foundCategories = None\<rparr>) st) \<and>
   current_tracking_session (saveCurrentSession None (Some new) st) = Some (toJSON new) \<and>
   written (saveCurrentSession None (Some new) st) = written st @ [SetItem CURRENT_SESSION_KEY] \<and>
   (currentSession h = None \<longrightarrow> watchPositionCallback M now1 wr location (h, st) = (h, st))"
proof (intro conjI impI)
  assume "currentSession h = None"
  then show "handleLocationUpdate M now1 now2 wr location (h, st) =
        (h\<lparr>currentSession := Some
             \<lparr>session_id = newSessionId now1, name = None, startTime = of_int now2,
              endTime = None, locations = [locationPoint location],
              distance = Some (Num 0), duration = Some 0,
              totalWeightG = None, foundCategories = None\<rparr>\<rparr>,
         saveCurrentSession wr (Some
             \<lparr>session_id = newSessionId now1, name = None, startTime = of_int now2,
              endTime = None, locations = [locationPoint location],
              distance = Some (Num 0), duration = Some 0,
              totalWeightG = None, foundCategories = None\<rparr>) st)"
    by (simp add: handleLocationUpdate_def Let_def)
next
  assume "getCurrentSession (task_read env) st = None"
  then show "taskStep M env location st =
        saveCurrentSession (task_write env) (Some
             \<lparr>session_id = newSessionId (task_now1 env), name = None,
              startTime = of_int (task_now2 env),
              endTime = None, locations = [locationPoint location],
              distance = Some (Num 0), duration = Some 0,
              totalWeightG = None, foundCategories = None\<rparr>) st"
    by (simp add: taskStep_def Let_def)
next
  show "current_tracking_session (saveCurrentSession None (Some new) st) = Some (toJSON new)"
    by (simp add: saveCurrentSession_def)
next
  show "written (saveCurrentSession None (Some new) st) = written st @ [SetItem CURRENT_SESSION_KEY]"
    by (simp add: saveCurrentSession_def)
next
  assume "currentSession h = None"
  then show "watchPositionCallback M now1 wr location (h, st) = (h, st)"
    by (simp add: watchPositionCallback_def)
qed

text \<open>
  The claim as stated, that such a fix is not recorded, no session is created and no stored
  state changes, fails on the idle hook with the empty storage.
\<close>

theorem C2_counterexample:
  "currentSession idleHook = None \<and>
   current_tracking_session emptyStorage = None \<and>
   handleLocationUpdate exampleMath 1000 1000 None fixA (idleHook, emptyStorage) =
     (idleHook\<lparr>currentSession := Some sessionA\<rparr>,
      emptyStorage\<lparr>current_tracking_session := Some sessionA,
                   written := [SetItem CURRENT_SESSION_KEY]\<rparr>) \<and>
   locations sessionA = [locationPoint fixA] \<and>
   handleLocationUpdate exampleMath 1000 1000 None fixA (idleHook, emptyStorage) \<noteq> (idleHook, emptyStorage)"
  by (simp add: handleLocationUpdate_def idleHook_def emptyStorage_def sessionA_def
        saveCurrentSession_def toJSON_def newSessionId_1000 Let_def)

theorem C2_witness:
  "currentSession idleHook = None \<and>
   getCurrentSession (task_read taskEnvOk) emptyStorage = None \<and>
   currentSession (fst (handleLocationUpdate exampleMath 1000 1000 None fixA (idleHook, emptyStorage))) = Some sessionA \<and>
   current_tracking_session (snd (handleLocationUpdate exampleMath 1000 1000 None fixA (idleHook, emptyStorage)))
     = Some sessionA \<and>
   map_option locations (current_tracking_session (taskStep exampleMath taskEnvOk fixA emptyStorage))
     = Some [locationPoint fixA] \<and>
   watchPositionCallback exampleMath 1000 None fixA (idleHook, emptyStorage) = (idleHook, emptyStorage)"
proof -
  have h: "currentSession idleHook = None" by (simp add: idleHook_def)
  have g: "getCurrentSession (task_read taskEnvOk) emptyStorage = None"
    by (simp add: getCurrentSession_def taskEnvOk_def emptyStorage_def)
  note t = C2_no_session_creates_one
    [of idleHook exampleMath 1000 1000 None fixA emptyStorage taskEnvOk sessionA]
  from t h have 1: "handleLocationUpdate exampleMath 1000 1000 None fixA (idleHook, emptyStorage) =
        (idleHook\<lparr>currentSession := Some
             \<lparr>session_id = newSessionId 1000, name = None, startTime = of_int 1000,
              endTime = None, locations = [locationPoint fixA],
              distance = Some (Num 0), duration = Some 0,
              totalWeightG = None, foundCategories = None\<rparr>\<rparr>,
         saveCurrentSession None (Some
             \<lparr>session_id = newSessionId 1000, name = None, startTime = of_int 1000,
              endTime = None, locations = [locationPoint fixA],
              distance = Some (Num 0), duration = Some 0,
              totalWeightG = None, foundCategories = None\<rparr>) emptyStorage)"
    by blast
  from t g have 2: "taskStep exampleMath taskEnvOk fixA emptyStorage =
        saveCurrentSession (task_write taskEnvOk) (Some
             \<lparr>session_id = newSessionId (task_now1 taskEnvOk), name = None,
              startTime = of_int (task_now2 taskEnvOk),
              endTime = None, locations = [locationPoint fixA],
              distance = Some (Num 0), duration = Some 0,
              totalWeightG = None, foundCategories = None\<rparr>) emptyStorage"
    by blast
  from t h have 3: "watchPositionCallback exampleMath 1000 None fixA (idleHook, emptyStorage) = (idleHook, emptyStorage)"
    by blast
  show ?thesis
    unfolding 1 2 3 using h g
    by (simp add: saveCurrentSession_def toJSON_def sessionA_def newSessionId_1000 taskEnvOk_def)
qed

section \<open>Starting while a session is active\<close>

lemma requestPermissions_cases:
  "requestPermissions current requested h = (True, h) \<or>
   (\<exists>msg. requestPermissions current requested h = (False, h\<lparr>error := Some msg\<rparr>))"
  by (auto simp: requestPermissions_def Let_def split: sum.splits)

lemma startTracking_store: "snd (startTracking current requested now1 now2 watch (h, st)) = st"
  using requestPermissions_cases[of current requested h]
  by (auto simp: startTracking_def Let_def split: option.splits)

lemma startTracking_granted:
  assumes "fst (requestPermissions current requested h)"
  shows "currentSession (fst (startTracking current requested now1 now2 watch (h, st))) =
           Some \<lparr>session_id = newSessionId now1, name = None, startTime = of_int now2,
                 endTime = None, locations = [], distance = None, duration = None,
                 totalWeightG = None, foundCategories = None\<rparr>"
    and "watch = None \<Longrightarrow> error (fst (startTracking current requested now1 now2 watch (h, st))) = None"
    and "watch = None \<Longrightarrow> isTracking (fst (startTracking current requested now1 now2 watch (h, st)))"
  using requestPermissions_cases[of current requested h] assms
  by (auto simp: startTracking_def Let_def split: option.splits)

lemma startTracking_refused:
  assumes "\<not> fst (requestPermissions current requested h)"
  shows "currentSession (fst (startTracking current requested now1 now2 watch (h, st))) = currentSession h"
    and "error (fst (startTracking current requested now1 now2 watch (h, st))) \<noteq> None"
  using requestPermissions_cases[of current requested h] assms
  by (auto simp: startTracking_def Let_def split: option.splits)

text \<open>
  C3, as amended. \<open>startTracking\<close> does not look at the current session. Whenever the
  location permission is granted it replaces the current session, active or not, by a
  fresh one without locations, and reports no error when the subscription succeeds; when
  the permission is not granted it keeps the current session and sets an error message.
  In both cases the storage is as before.
\<close>

theorem C3_start_replaces_session:
  "(fst (requestPermissions current requested h) \<longrightarrow>
      currentSession (fst (startTracking current requested now1 now2 watch (h, st))) =
        Some \<lparr>session_id = newSessionId now1, name = None, startTime = of_int now2,
              endTime = None, locations = [], distance = None, duration = None,
              totalWeightG = None, foundCategories = None\<rparr>) \<and>
   (fst (requestPermissions current requested h) \<and> watch = None \<longrightarrow>
      error (fst (startTracking current requested now1 now2 watch (h, st))) = None \<and>
      isTracking (fst (startTracking current requested now1 now2 watch (h, st)))) \<and>
   (\<not> fst (requestPermissions current requested h) \<longrightarrow>
      currentSession (fst (startTracking current requested now1 now2 watch (h, st))) = currentSession h \<and>
      error (fst (startTracking current requested now1 now2 watch (h, st))) \<noteq> None) \<and>
   snd (startTracking current requested now1 now2 watch (h, st)) = st"
  by (simp add: startTracking_granted startTracking_refused startTracking_store)


text \<open>
  The claim as stated, that starting with an active session fails and leaves that session
  unchanged, fails on the active hook: the session with its fix is replaced and no error
  is reported.
\<close>

theorem C3_counterexample:
  "currentSession activeHook = Some sessionA \<and>
   currentSession (fst (startTracking (Inr granted) (Inr granted) 5000 5000 None (activeHook, activeStorage)))
     = Some \<lparr>session_id = ''session_5000'', name = None, startTime = 5000, endTime = None,
             locations = [], distance = None, duration = None,
             totalWeightG = None, foundCategories = None\<rparr> \<and>
   currentSession (fst (startTracking (Inr granted) (Inr granted) 5000 5000 None (activeHook, activeStorage)))
     \<noteq> Some sessionA \<and>
   error (fst (startTracking (Inr granted) (Inr granted) 5000 5000 None (activeHook, activeStorage))) = None"
  by (simp add: startTracking_def requestPermissions_def activeHook_def sessionA_def
        newSessionId_5000 Let_def)

theorem C3_witness:
  "fst (requestPermissions (Inr granted) (Inr granted) activeHook) \<and>
   \<not> fst (requestPermissions (Inr denied) (Inr denied) activeHook) \<and>
   currentSession (fst (startTracking (Inr granted) (Inr granted) 5000 5000 None (activeHook, activeStorage)))
     = Some \<lparr>session_id = ''session_5000'', name = None, startTime = 5000, endTime = None,
             locations = [], distance = None, duration = None,
             totalWeightG = None, foundCategories = None\<rparr> \<and>
   error (fst (startTracking (Inr granted) (Inr granted) 5000 5000 None (activeHook, activeStorage))) = None \<and>
   currentSession (fst (startTracking (Inr denied) (Inr denied) 5000 5000 None (activeHook, activeStorage)))
     = Some sessionA \<and>
   snd (startTracking (Inr granted) (Inr granted) 5000 5000 None (activeHook, activeStorage)) = activeStorage"
proof -
  have g: "fst (requestPermissions (Inr granted) (Inr granted) activeHook)"
    by (simp add: requestPermissions_def)
  have d: "\<not> fst (requestPermissions (Inr denied) (Inr denied) activeHook)"
    by (simp add: requestPermissions_def)
  have a: "currentSession activeHook = Some sessionA" by (simp add: activeHook_def)
  show ?thesis
    using g d a
      C3_start_replaces_session[of "Inr granted" "Inr granted" activeHook 5000 5000 None activeStorage]
      C3_start_replaces_session[of "Inr denied" "Inr denied" activeHook 5000 5000 None activeStorage]
    by (simp add: newSessionId_5000)
qed

section \<open>Stopping\<close>

lemma stopTracking_active_ok:
  "currentSession h = Some cs \<Longrightarrow>
   stopTracking now1 now2 rd None None (h, st) =
     (h\<lparr>locationSubscription := False, currentSession := None, isTracking := False\<rparr>,
      st\<lparr>tracking_sessions := Some (getSessions rd st @
             [toJSON (cs\<lparr>endTime := Some (of_int now1),
                          duration := Some (of_int now2 - startTime cs)\<rparr>)]),
         current_tracking_session := None,
         written := written st @ [SetItem SESSIONS_KEY, RemoveItem CURRENT_SESSION_KEY]\<rparr>)"
  by (simp add: stopTracking_def saveSession_def saveCurrentSession_def Let_def)

lemma stopTracking_active_rejected:
  "currentSession h = Some cs \<Longrightarrow>
   stopTracking now1 now2 rd (Some e) rm (h, st) =
     (h\<lparr>locationSubscription := False,
        error := Some (errorMessage e ''Failed to stop tracking'')\<rparr>, st)"
  by (simp add: stopTracking_def saveSession_def Let_def)

text \<open>
  C4. For every active session, with both writes acknowledged, \<open>stopTracking\<close> first
  appends the final session, whose \<open>endTime\<close> is set, to the completed sessions and
  then clears the active record: the resulting storage is the removal applied to the
  storage after the append, and the journal gains the two writes in that order. Afterwards
  the active record is absent and the completed list ends with the final session, in the
  form JSON gives it (the session itself unless its distance is NaN). When the append is
  rejected the removal is not made: the storage and the current session stay as they were.
\<close>

theorem C4_stop_appends_then_clears:
  "currentSession h = Some cs \<longrightarrow>
     saveSession rd None (cs\<lparr>endTime := Some (of_int now1),
                              duration := Some (of_int now2 - startTime cs)\<rparr>) st =
       Inr (st\<lparr>tracking_sessions := Some (getSessions rd st @
                   [toJSON (cs\<lparr>endTime := Some (of_int now1),
                                duration := Some (of_int now2 - startTime cs)\<rparr>)]),
               written := written st @ [SetItem SESSIONS_KEY]\<rparr>) \<and>
     snd (stopTracking now1 now2 rd None None (h, st)) =
       saveCurrentSession None None
         (st\<lparr>tracking_sessions := Some (getSessions rd st @
                   [toJSON (cs\<lparr>endTime := Some (of_int now1),
                                duration := Some (of_int now2 - startTime cs)\<rparr>)]),
             written := written st @ [SetItem SESSIONS_KEY]\<rparr>) \<and>
     written (snd (stopTracking now1 now2 rd None None (h, st))) =
       written st @ [SetItem SESSIONS_KEY, RemoveItem CURRENT_SESSION_KEY] \<and>
     getCurrentSession None (snd (stopTracking now1 now2 rd None None (h, st))) = None \<and>
     getSessions None (snd (stopTracking now1 now2 rd None None (h, st))) =
       getSessions rd st @ [toJSON (cs\<lparr>endTime := Some (of_int now1),
                                      duration := Some (of_int now2 - startTime cs)\<rparr>)] \<and>
     currentSession (fst (stopTracking now1 now2 rd None None (h, st))) = None \<and>
     snd (stopTracking now1 now2 rd (Some e) rm (h, st)) = st \<and>
     currentSession (fst (stopTracking now1 now2 rd (Some e) rm (h, st))) = Some cs"
proof
  assume a: "currentSession h = Some cs"
  show "saveSession rd None (cs\<lparr>endTime := Some (of_int now1),
                              duration := Some (of_int now2 - startTime cs)\<rparr>) st =
       Inr (st\<lparr>tracking_sessions := Some (getSessions rd st @
                   [toJSON (cs\<lparr>endTime := Some (of_int now1),
                                duration := Some (of_int now2 - startTime cs)\<rparr>)]),
               written := written st @ [SetItem SESSIONS_KEY]\<rparr>) \<and>
     snd (stopTracking now1 now2 rd None None (h, st)) =
       saveCurrentSession None None
         (st\<lparr>tracking_sessions := Some (getSessions rd st @
                   [toJSON (cs\<lparr>endTime := Some (of_int now1),
                                duration := Some (of_int now2 - startTime cs)\<rparr>)]),
             written := written st @ [SetItem SESSIONS_KEY]\<rparr>) \<and>
     written (snd (stopTracking now1 now2 rd None None (h, st))) =
       written st @ [SetItem SESSIONS_KEY, RemoveItem CURRENT_SESSION_KEY] \<and>
     getCurrentSession None (snd (stopTracking now1 now2 rd None None (h, st))) = None \<and>
     getSessions None (snd (stopTracking now1 now2 rd None None (h, st))) =
       getSessions rd st @ [toJSON (cs\<lparr>endTime := Some (of_int now1),
                                      duration := Some (of_int now2 - startTime cs)\<rparr>)] \<and>
     currentSession (fst (stopTracking now1 now2 rd None None (h, st))) = None \<and>
     snd (stopTracking now1 now2 rd (Some e) rm (h, st)) = st \<and>
     currentSession (fst (stopTracking now1 now2 rd (Some e) rm (h, st))) = Some cs"
    unfolding stopTracking_active_ok[OF a] stopTracking_active_rejected[OF a]
    using a by (simp add: saveSession_def saveCurrentSession_def getSessions_def
                  getCurrentSession_def Let_def)
qed

theorem C4_witness:
  "currentSession activeHook = Some sessionA \<and>
   snd (stopTracking 3000 3000 None None None (activeHook, activeStorage)) =
     \<lparr>tracking_sessions = Some [sessionA\<lparr>endTime := Some 3000, duration := Some 2000\<rparr>],
      current_tracking_session = None,
      written = [SetItem CURRENT_SESSION_KEY, SetItem SESSIONS_KEY, RemoveItem CURRENT_SESSION_KEY]\<rparr> \<and>
   currentSession (fst (stopTracking 3000 3000 None None None (activeHook, activeStorage))) = None \<and>
   snd (stopTracking 3000 3000 None (Some NotAnError) None (activeHook, activeStorage)) = activeStorage"
proof -
  have a: "currentSession activeHook = Some sessionA" by (simp add: activeHook_def)
  have s: "startTime sessionA = 1000" by (simp add: sessionA_def)
  show ?thesis
    using a C4_stop_appends_then_clears[of activeHook sessionA None 3000 3000 activeStorage NotAnError None]
    by (simp add: s activeStorage_def saveCurrentSession_def getSessions_def toJSON_def
          sessionA_def)
qed

text \<open>
  C7, as amended. For every idle state, \<open>stopTracking\<close> reports no error: it leaves the
  error field, the absent current session and the whole storage, journal included, as
  they are, and only drops the subscription and sets \<open>isTracking\<close> to false.
\<close>

theorem C7_stop_when_idle:
  "currentSession h = None \<longrightarrow>
     stopTracking now1 now2 rd wr rm (h, st) =
       (h\<lparr>locationSubscription := False, isTracking := False\<rparr>, st) \<and>
     error (fst (stopTracking now1 now2 rd wr rm (h, st))) = error h \<and>
     currentSession (fst (stopTracking now1 now2 rd wr rm (h, st))) = None \<and>
     snd (stopTracking now1 now2 rd wr rm (h, st)) = st"
  by (simp add: stopTracking_def Let_def)

text \<open>
  The claim as stated, that stopping while idle fails with an error, fails on the idle hook:
  no error is set and nothing changes.
\<close>

theorem C7_counterexample:
  "currentSession idleHook = None \<and>
   error idleHook = None \<and>
   error (fst (stopTracking 5000 5000 None None None (idleHook, emptyStorage))) = None \<and>
   stopTracking 5000 5000 None None None (idleHook, emptyStorage) = (idleHook, emptyStorage)"
  by (simp add: stopTracking_def idleHook_def Let_def)

theorem C7_witness:
  "currentSession idleHook = None \<and>
   stopTracking 5000 5000 None None None (idleHook, historyStorage) = (idleHook, historyStorage) \<and>
   error (fst (stopTracking 5000 5000 None None None (idleHook, historyStorage))) = None"
proof -
  have a: "currentSession idleHook = None" by (simp add: idleHook_def)
  show ?thesis
    using a C7_stop_when_idle[of idleHook 5000 5000 None None None historyStorage]
    by (simp add: idleHook_def)
qed

section \<open>Attaching a summary twice\<close>

lemma fl_1200: "fl 1200 = 1200"
  by (subst fl_at[where k = 10]) (simp_all add: pow2_def roundEven_def)

lemma mathRound_1200: "mathRound 1200 = 1200"
  by (simp add: mathRound_def)

text \<open>
  C5. Saving the summary form again for a completed session that already carries a
  summary should overwrite the stored record. On the storage holding one session with
  2500 g of plastic and glass, submitting 1.2 kg of metal for the same id appends a second
  record with that id, and \<open>getSession\<close> still returns the first one with the old values.
\<close>

theorem C5_resubmission_appends_duplicate:
  "getSessions None historyStorage = [summarisedSession] \<and>
   totalWeightG summarisedSession = Some 2500 \<and>
   foundCategories summarisedSession = Some [plastic, glass] \<and>
   getSessions None (attachSummary 9000 ''session_1000'' editedForm historyStorage) =
     [summarisedSession,
      summarisedSession\<lparr>totalWeightG := Some 1200, foundCategories := Some [metal]\<rparr>] \<and>
   map session_id (getSessions None (attachSummary 9000 ''session_1000'' editedForm historyStorage)) =
     [''session_1000'', ''session_1000''] \<and>
   getSession None ''session_1000'' (attachSummary 9000 ''session_1000'' editedForm historyStorage) =
     Some summarisedSession"
  by (simp add: attachSummary_def onSubmit_def loadSession_def getSession_def getSessions_def
        saveSession_def getCurrentSession_def historyStorage_def summarisedSession_def
        sessionA_def editedForm_def fl_1200 mathRound_1200 toJSON_def Let_def)

section \<open>Recovery\<close>

lemma loadActiveSession_store: "snd (loadActiveSession rd current requested watch (h, st)) = st"
  using requestPermissions_cases
    [of current requested "h\<lparr>currentSession := current_tracking_session st, isTracking := True\<rparr>"]
  by (auto simp: loadActiveSession_def getCurrentSession_def Let_def split: option.splits)

lemma loadActiveSession_adopts:
  "current_tracking_session st = Some s \<Longrightarrow>
   currentSession (fst (loadActiveSession None current requested watch (h, st))) = Some s \<and>
   isTracking (fst (loadActiveSession None current requested watch (h, st)))"
  using requestPermissions_cases
    [of current requested "h\<lparr>currentSession := Some s, isTracking := True\<rparr>"]
  by (auto simp: loadActiveSession_def getCurrentSession_def Let_def split: option.splits)

lemma requestPermissions_uniform:
  "\<exists>b m. \<forall>k. requestPermissions current requested k =
           (b, if b then k else k\<lparr>error := Some m\<rparr>)"
proof (cases current)
  case (Inl e)
  then have "\<forall>k. requestPermissions current requested k =
      (False, if False then k else k\<lparr>error := Some (''Failed to request location permission: '' @
                                            errorMessage e ''Unknown error'')\<rparr>)"
    by (simp add: requestPermissions_def)
  then show ?thesis by blast
next
  case (Inr currentStatus)
  show ?thesis
  proof (cases "currentStatus = granted")
    case True
    with Inr have "\<forall>k. requestPermissions current requested k =
        (True, if True then k else k\<lparr>error := Some []\<rparr>)"
      by (simp add: requestPermissions_def)
    then show ?thesis by blast
  next
    case False
    show ?thesis
    proof (cases requested)
      case (Inl e)
      with Inr False have "\<forall>k. requestPermissions current requested k =
          (False, if False then k else k\<lparr>error := Some (''Failed to request location permission: '' @
                                                errorMessage e ''Unknown error'')\<rparr>)"
        by (simp add: requestPermissions_def)
      then show ?thesis by blast
    next
      case (Inr foregroundStatus)
      show ?thesis
      proof (cases "foregroundStatus = granted")
        case True
        with Inr \<open>current = Inr currentStatus\<close> False
        have "\<forall>k. requestPermissions current requested k =
            (True, if True then k else k\<lparr>error := Some []\<rparr>)"
          by (simp add: requestPermissions_def)
        then show ?thesis by blast
      next
        case nogrant: False
        with Inr \<open>current = Inr currentStatus\<close> False
        have "\<forall>k. requestPermissions current requested k =
            (False, if False then k else k\<lparr>error := Some
               ''Location permission is required to track your workout. Please enable it in Settings.''\<rparr>)"
          by (simp add: requestPermissions_def)
        then show ?thesis by blast
      qed
    qed
  qed
qed

lemma loadActiveSession_idem:
  "loadActiveSession rd current requested watch (loadActiveSession rd current requested watch (h, st)) =
   loadActiveSession rd current requested watch (h, st)"
proof (cases "getCurrentSession rd st")
  case None
  then show ?thesis by (simp add: loadActiveSession_def)
next
  case (Some s)
  obtain b m where u: "\<And>k. requestPermissions current requested k =
           (b, if b then k else k\<lparr>error := Some m\<rparr>)"
    using requestPermissions_uniform[of current requested] by blast
  show ?thesis
    using Some by (cases b; cases watch) (simp_all add: loadActiveSession_def Let_def u)
qed

text \<open>
  C6. For every stored active-session record, with the reads resolving, calling
  \<open>loadActiveSession\<close> twice in a row yields the stored aggregate as the current session
  both times and leaves the storage, journal included, as it is; with the same platform
  outcomes the second call changes nothing at all.
\<close>

theorem C6_recover_twice_same_aggregate:
  "current_tracking_session st = Some s \<longrightarrow>
     currentSession (fst (loadActiveSession None c1 r1 w1 (h, st))) = Some s \<and>
     currentSession (fst (loadActiveSession None c2 r2 w2 (loadActiveSession None c1 r1 w1 (h, st)))) = Some s \<and>
     snd (loadActiveSession None c1 r1 w1 (h, st)) = st \<and>
     snd (loadActiveSession None c2 r2 w2 (loadActiveSession None c1 r1 w1 (h, st))) = st \<and>
     loadActiveSession None c1 r1 w1 (loadActiveSession None c1 r1 w1 (h, st)) =
       loadActiveSession None c1 r1 w1 (h, st)"
proof
  assume a: "current_tracking_session st = Some s"
  obtain h1 where w: "loadActiveSession None c1 r1 w1 (h, st) = (h1, st)"
    using loadActiveSession_store[of None c1 r1 w1 h st]
    by (cases "loadActiveSession None c1 r1 w1 (h, st)") simp
  show "currentSession (fst (loadActiveSession None c1 r1 w1 (h, st))) = Some s \<and>
     currentSession (fst (loadActiveSession None c2 r2 w2 (loadActiveSession None c1 r1 w1 (h, st)))) = Some s \<and>
     snd (loadActiveSession None c1 r1 w1 (h, st)) = st \<and>
     snd (loadActiveSession None c2 r2 w2 (loadActiveSession None c1 r1 w1 (h, st))) = st \<and>
     loadActiveSession None c1 r1 w1 (loadActiveSession None c1 r1 w1 (h, st)) =
       loadActiveSession None c1 r1 w1 (h, st)"
    using loadActiveSession_adopts[OF a, of c1 r1 w1 h]
          loadActiveSession_adopts[OF a, of c2 r2 w2 h1]
          loadActiveSession_store[of None c2 r2 w2 h1 st]
          loadActiveSession_idem[of None c1 r1 w1 h st]
    by (simp add: w)
qed

theorem C6_witness:
  "current_tracking_session activeStorage = Some sessionA \<and>
   currentSession (fst (loadActiveSession None (Inr granted) (Inr granted) None (idleHook, activeStorage)))
     = Some sessionA \<and>
   currentSession (fst (loadActiveSession None (Inr granted) (Inr granted) None
      (loadActiveSession None (Inr granted) (Inr granted) None (idleHook, activeStorage))))
     = Some sessionA \<and>
   snd (loadActiveSession None (Inr granted) (Inr granted) None
      (loadActiveSession None (Inr granted) (Inr granted) None (idleHook, activeStorage)))
     = activeStorage"
proof -
  have a: "current_tracking_session activeStorage = Some sessionA" by (simp add: activeStorage_def)
  show ?thesis
    using a C6_recover_twice_same_aggregate
      [of activeStorage sessionA "Inr granted" "Inr granted" None idleHook
          "Inr granted" "Inr granted" None]
    by simp
qed

section \<open>Zero readings\<close>

lemma orUndefined_not_zero: "orUndefined v \<noteq> Some 0"
  by (simp add: orUndefined_def split: option.splits)

lemma handleLocationUpdate_last:
  "\<exists>s'. currentSession (fst (handleLocationUpdate M now1 now2 wr location (h, st))) = Some s' \<and>
        last (locations s') = locationPoint location"
  by (cases "currentSession h") (simp_all add: handleLocationUpdate_def Let_def)

lemma taskStep_last:
  "task_write env = None \<Longrightarrow>
   \<exists>s'. current_tracking_session (taskStep M env location st) = Some s' \<and>
        last (locations s') = locationPoint location"
  by (cases "getCurrentSession (task_read env) st")
     (simp_all add: taskStep_def saveCurrentSession_def toJSON_def Let_def)

text \<open>
  C9. For every raw reading whose accuracy, altitude or speed is exactly 0, the location
  point built from it stores that field as undefined; no location point ever holds a 0 in
  one of these fields; and the point built is the one appended to the session, by
  \<open>handleLocationUpdate\<close>, by the watch callback on an active session and by the
  background task when its write is acknowledged.
\<close>

theorem C9_zero_reading_stored_as_undefined:
  "(coords_accuracy location = Some 0 \<longrightarrow> accuracy (locationPoint location) = None) \<and>
   (coords_altitude location = Some 0 \<longrightarrow> altitude (locationPoint location) = None) \<and>
   (coords_speed location = Some 0 \<longrightarrow> speed (locationPoint location) = None) \<and>
   accuracy (locationPoint location) \<noteq> Some 0 \<and>
   altitude (locationPoint location) \<noteq> Some 0 \<and>
   speed (locationPoint location) \<noteq> Some 0 \<and>
   (\<exists>s'. currentSession (fst (handleLocationUpdate M now1 now2 wr location (h, st))) = Some s' \<and>
         last (locations s') = locationPoint location) \<and>
   (currentSession h = Some s \<longrightarrow>
      (\<exists>s'. currentSession (fst (watchPositionCallback M now1 wr location (h, st))) = Some s' \<and>
            last (locations s') = locationPoint location)) \<and>
   (task_write env = None \<longrightarrow>
      (\<exists>s'. current_tracking_session (taskStep M env location st) = Some s' \<and>
            last (locations s') = locationPoint location))"
proof (intro conjI impI)
  show "\<exists>s'. currentSession (fst (handleLocationUpdate M now1 now2 wr location (h, st))) = Some s' \<and>
         last (locations s') = locationPoint location"
    by (rule handleLocationUpdate_last)
next
  assume "currentSession h = Some s"
  then show "\<exists>s'. currentSession (fst (watchPositionCallback M now1 wr location (h, st))) = Some s' \<and>
            last (locations s') = locationPoint location"
    by (simp add: watchPositionCallback_def Let_def)
next
  assume "task_write env = None"
  then show "\<exists>s'. current_tracking_session (taskStep M env location st) = Some s' \<and>
            last (locations s') = locationPoint location"
    by (rule taskStep_last)
qed (simp_all add: locationPoint_def orUndefined_not_zero, simp_all add: orUndefined_def)

theorem C9_witness:
  "coords_altitude fixA = Some 0 \<and> coords_speed fixA = Some 0 \<and>
   currentSession activeHook = Some sessionA \<and> task_write taskEnvOk = None \<and>
   altitude (locationPoint fixA) = None \<and> speed (locationPoint fixA) = None \<and>
   accuracy (locationPoint fixA) = Some 5 \<and>
   (\<exists>s'. currentSession (fst (handleLocationUpdate exampleMath 2000 2000 None fixA (activeHook, activeStorage))) = Some s' \<and>
         altitude (last (locations s')) = None \<and> speed (last (locations s')) = None)"
proof -
  have f: "coords_altitude fixA = Some 0" "coords_speed fixA = Some 0" by (simp_all add: fixA_def)
  have a: "currentSession activeHook = Some sessionA" by (simp add: activeHook_def)
  have t: "task_write taskEnvOk = None" by (simp add: taskEnvOk_def)
  note c = C9_zero_reading_stored_as_undefined
             [of fixA exampleMath 2000 2000 None activeHook activeStorage sessionA taskEnvOk]
  from c f have z: "altitude (locationPoint fixA) = None" "speed (locationPoint fixA) = None"
    by blast+
  from c obtain s' where
    "currentSession (fst (handleLocationUpdate exampleMath 2000 2000 None fixA (activeHook, activeStorage))) = Some s'"
    "last (locations s') = locationPoint fixA"
    by blast
  then show ?thesis
    using f a t z by (auto simp: locationPoint_def orUndefined_def fixA_def)
qed

section \<open>Deleting a session\<close>

lemma deleteSession_ok:
  "deleteSession None None i st =
     Inr (st\<lparr>tracking_sessions := Some (filter (\<lambda>s. session_id s \<noteq> i) (getSessions None st)),
             written := written st @ [SetItem SESSIONS_KEY]\<rparr>)"
  by (simp add: deleteSession_def Let_def)

text \<open>
  C10. For every stored list of completed sessions and every id, with the read and the
  write resolving, \<open>deleteSession\<close> stores the list without every entry of that id,
  duplicates included, the other entries unchanged and in their order; the
  active-session record is not touched.
\<close>

theorem C10_delete_removes_all_with_id:
  "\<exists>st'. deleteSession None None i st = Inr st' \<and>
     getSessions None st' = filter (\<lambda>s. session_id s \<noteq> i) (getSessions None st) \<and>
     i \<notin> session_id ` set (getSessions None st') \<and>
     filter (\<lambda>s. session_id s \<noteq> i) (getSessions None st') =
       filter (\<lambda>s. session_id s \<noteq> i) (getSessions None st) \<and>
     current_tracking_session st' = current_tracking_session st \<and>
     getCurrentSession rd st' = getCurrentSession rd st"
  unfolding deleteSession_ok
  by (auto simp: getSessions_def getCurrentSession_def split: option.splits)


theorem C10_witness:
  "\<exists>st'. deleteSession None None ''session_1000''
           \<lparr>tracking_sessions = Some [sessionA, summarisedSession\<lparr>session_id := ''session_7''\<rparr>,
                                      summarisedSession],
            current_tracking_session = Some sessionA, written = []\<rparr> = Inr st' \<and>
         getSessions None st' = [summarisedSession\<lparr>session_id := ''session_7''\<rparr>] \<and>
         current_tracking_session st' = Some sessionA"
proof -
  let ?st = "\<lparr>tracking_sessions = Some [sessionA, summarisedSession\<lparr>session_id := ''session_7''\<rparr>,
                                summarisedSession],
      current_tracking_session = Some sessionA, written = []\<rparr>"
  have g: "filter (\<lambda>s. session_id s \<noteq> ''session_1000'') (getSessions None ?st) =
             [summarisedSession\<lparr>session_id := ''session_7''\<rparr>]"
    by (simp add: getSessions_def sessionA_def summarisedSession_def)
  from C10_delete_removes_all_with_id[of "''session_1000''" ?st None]
  obtain st' where "deleteSession None None ''session_1000'' ?st = Inr st'"
    and "getSessions None st' = filter (\<lambda>s. session_id s \<noteq> ''session_1000'') (getSessions None ?st)"
    and "current_tracking_session st' = current_tracking_session ?st"
    by blast
  then have "deleteSession None None ''session_1000'' ?st = Inr st' \<and>
         getSessions None st' = [summarisedSession\<lparr>session_id := ''session_7''\<rparr>] \<and>
         current_tracking_session st' = Some sessionA"
    unfolding g by simp
  then show ?thesis by blast
qed

end
